theory Spec2Isabelle
  imports Main "HOL-Library.Multiset"
begin

section \<open>es-midway-admin: response envelope, generic CRUD service, user service\<close>

text \<open>
  The repository is a thin controller / service / entity stack over a typeorm
  \<^verbatim>\<open>Repository<User>\<close>. A JavaScript object whose properties may be missing is a
  record of \<open>option\<close> fields: \<open>None\<close> is a property that is \<^verbatim>\<open>undefined\<close>
  (or \<^verbatim>\<open>null\<close>), \<open>Some v\<close> one that holds \<open>v\<close>. A thrown exception is the
  \<open>Inl\<close> of a sum; a method that writes to the table returns the table next to
  its result, so that what a failed call leaves behind can be stated.
\<close>

subsection \<open>The response envelope (src/utils/result.ts)\<close>

definition DEFAULT_SUCCESS_CODE :: int where
  "DEFAULT_SUCCESS_CODE = 200"

definition DEFAULT_ERROR_CODE :: int where
  "DEFAULT_ERROR_CODE = 900"

text \<open>
  \<^verbatim>\<open>interface IResult<T> { data?: T; code?: number; message?: string }\<close>.
  In a returned envelope \<open>data = None\<close> is \<^verbatim>\<open>null\<close>.
\<close>

record 'a IResult =
  data :: "'a option"
  code :: "int option"
  message :: "string option"

text \<open>The default argument \<^verbatim>\<open>option = {}\<close>.\<close>

definition empty_option :: "'a IResult" where
  "empty_option = \<lparr>data = None, code = None, message = None\<rparr>"

definition default_arg :: "'a IResult option \<Rightarrow> 'a IResult" where
  "default_arg option = (case option of None \<Rightarrow> empty_option | Some opt \<Rightarrow> opt)"

text \<open>
  \<^verbatim>\<open>const { data = null, code = DEFAULT_SUCCESS_CODE, message = 'success' } = option\<close>:
  a default replaces a property that is missing.
\<close>

definition Result_success :: "'a IResult option \<Rightarrow> 'a IResult" where
  "Result_success option =
     (let opt = default_arg option in
      \<lparr>data = data opt,
       code = Some (case code opt of None \<Rightarrow> DEFAULT_SUCCESS_CODE | Some c \<Rightarrow> c),
       message = Some (case message opt of None \<Rightarrow> ''success'' | Some m \<Rightarrow> m)\<rparr>)"

definition Result_error :: "'a IResult option \<Rightarrow> 'a IResult" where
  "Result_error option =
     (let opt = default_arg option in
      \<lparr>data = data opt,
       code = Some (case code opt of None \<Rightarrow> DEFAULT_ERROR_CODE | Some c \<Rightarrow> c),
       message = Some (case message opt of None \<Rightarrow> ''error'' | Some m \<Rightarrow> m)\<rparr>)"

subsection \<open>BaseController (src/controller/base.ts)\<close>

text \<open>
  \<^verbatim>\<open>{ data, ...option }\<close> and \<^verbatim>\<open>{ message, ...option }\<close>: a property of
  \<open>option\<close> replaces the one written before the spread.
\<close>

definition BaseController_success :: "'a option \<Rightarrow> 'a IResult option \<Rightarrow> 'a IResult" where
  "BaseController_success d option =
     (let opt = default_arg option in
      Result_success (Some \<lparr>data = (case data opt of None \<Rightarrow> d | Some d' \<Rightarrow> Some d'),
                            code = code opt,
                            message = message opt\<rparr>))"

definition BaseController_error :: "string option \<Rightarrow> 'a IResult option \<Rightarrow> 'a IResult" where
  "BaseController_error msg option =
     (let opt = default_arg option in
      Result_error (Some \<lparr>data = data opt,
                          code = code opt,
                          message = (case message opt of None \<Rightarrow> msg | Some m \<Rightarrow> Some m)\<rparr>))"

subsection \<open>The User entity (src/entity/user.ts, src/entity/base.ts)\<close>

text \<open>
  The columns of the \<^verbatim>\<open>user\<close> table. The same record is a request body, a
  \<^verbatim>\<open>where\<close> object and a stored row. The timestamps \<^verbatim>\<open>createTime\<close> and
  \<^verbatim>\<open>updateTime\<close> are written by the database and are left out.
\<close>

record user =
  id' :: "int option"
  username :: "string option"
  password :: "string option"
  realname :: "string option"
  nickname :: "string option"
  roleId :: "string option"

datatype error =
    CustomHttpError string
  | TypeORMError
  | QueryFailedError

text \<open>The message of \<^verbatim>\<open>new CustomHttpError('...')\<close> in \<^verbatim>\<open>UserService.add\<close>, as its UTF-8 bytes.\<close>

definition USER_EXISTS :: string where
  "USER_EXISTS =
     [CHR 0xE7, CHR 0x94, CHR 0xA8, CHR 0xE6, CHR 0x88, CHR 0xB7, CHR 0xE5, CHR 0xB7, CHR 0xB2,
      CHR 0xE5, CHR 0xAD, CHR 0x98, CHR 0xE5, CHR 0x9C, CHR 0xA8]"

subsection \<open>The typeorm repository\<close>

text \<open>
  \<^verbatim>\<open>Repository<User>\<close> is a library. Its table is the list of rows in the order
  of the primary key, in which the database returns them, with the next value
  of the generated key.
\<close>

record repository =
  rows :: "user list"
  nextId :: int

text \<open>
  A \<^verbatim>\<open>where\<close> object constrains the columns it gives a value for; a property that
  is missing or \<^verbatim>\<open>undefined\<close> constrains nothing.
\<close>

definition column_ok :: "'a option \<Rightarrow> 'a option \<Rightarrow> bool" where
  "column_ok w c = (case w of None \<Rightarrow> True | Some v \<Rightarrow> c = Some v)"

definition matches :: "user \<Rightarrow> user \<Rightarrow> bool" where
  "matches w r \<longleftrightarrow>
     column_ok (id' w) (id' r) \<and> column_ok (username w) (username r) \<and>
     column_ok (password w) (password r) \<and> column_ok (realname w) (realname r) \<and>
     column_ok (nickname w) (nickname r) \<and> column_ok (roleId w) (roleId r)"

text \<open>\<^verbatim>\<open>where: {}\<close>\<close>

definition empty_where :: user where
  "empty_where =
     \<lparr>id' = None, username = None, password = None, realname = None, nickname = None,
      roleId = None\<rparr>"

text \<open>\<^verbatim>\<open>where: undefined\<close> selects every row.\<close>

definition where_clause :: "user option \<Rightarrow> user \<Rightarrow> bool" where
  "where_clause w r = (case w of None \<Rightarrow> True | Some w' \<Rightarrow> matches w' r)"

definition Repository_findOne :: "user \<Rightarrow> repository \<Rightarrow> user option" where
  "Repository_findOne w repo = find (matches w) (rows repo)"

definition Repository_find :: "user option \<Rightarrow> repository \<Rightarrow> user list" where
  "Repository_find w repo = filter (where_clause w) (rows repo)"

text \<open>
  \<^verbatim>\<open>findAndCount({ where, take, skip })\<close>: a \<^verbatim>\<open>LIMIT take OFFSET skip\<close> query and
  a count of all the rows that \<^verbatim>\<open>where\<close> selects. The database rejects a negative
  limit or offset.
\<close>

definition Repository_findAndCount ::
  "user option \<Rightarrow> int \<Rightarrow> int \<Rightarrow> repository \<Rightarrow> error + (user list \<times> nat)" where
  "Repository_findAndCount w tk sk repo =
     (if tk < 0 \<or> sk < 0 then Inl QueryFailedError
      else let selected = filter (where_clause w) (rows repo)
           in Inr (take (nat tk) (drop (nat sk) selected), length selected))"

text \<open>The properties of \<open>d\<close> that have a value overwrite the columns of the row \<open>r\<close>.\<close>

definition column_set :: "'a option \<Rightarrow> 'a option \<Rightarrow> 'a option" where
  "column_set c v = (case v of None \<Rightarrow> c | Some x \<Rightarrow> Some x)"

definition merge :: "user \<Rightarrow> user \<Rightarrow> user" where
  "merge r d =
     \<lparr>id' = column_set (id' r) (id' d), username = column_set (username r) (username d),
      password = column_set (password r) (password d),
      realname = column_set (realname r) (realname d),
      nickname = column_set (nickname r) (nickname d),
      roleId = column_set (roleId r) (roleId d)\<rparr>"

text \<open>A new row takes its place in the order of the key.\<close>

definition key_before :: "user \<Rightarrow> user \<Rightarrow> bool" where
  "key_before e r = (case (id' e, id' r) of (Some a, Some b) \<Rightarrow> a < b | _ \<Rightarrow> False)"

fun insert_row :: "user \<Rightarrow> user list \<Rightarrow> user list" where
  "insert_row e [] = [e]"
| "insert_row e (r # rs) = (if key_before e r then e # r # rs else r # insert_row e rs)"

text \<open>
  The \<^verbatim>\<open>INSERT\<close> of a row. The columns \<^verbatim>\<open>username\<close> and \<^verbatim>\<open>password\<close> are
  declared without \<^verbatim>\<open>nullable: true\<close>: a row that gives one of them no value is
  refused by the database and nothing is stored.
\<close>

definition Repository_insert :: "user \<Rightarrow> int \<Rightarrow> repository \<Rightarrow> (error + user) \<times> repository" where
  "Repository_insert e next repo =
     (if username e = None \<or> password e = None then (Inl QueryFailedError, repo)
      else (Inr e, \<lparr>rows = insert_row e (rows repo), nextId = next\<rparr>))"

text \<open>
  \<^verbatim>\<open>save(entity)\<close>: an entity without a key is inserted under the next generated
  key; an entity whose key is that of a stored row updates that row with the
  properties it carries; an entity with a key that no row has is inserted under
  that key. The entity is returned with its key.
\<close>

definition Repository_save :: "user \<Rightarrow> repository \<Rightarrow> (error + user) \<times> repository" where
  "Repository_save d repo =
     (case id' d of
        None \<Rightarrow> Repository_insert (d\<lparr>id' := Some (nextId repo)\<rparr>) (nextId repo + 1) repo
      | Some i \<Rightarrow>
          if \<exists>r \<in> set (rows repo). id' r = Some i
          then (Inr d,
                repo\<lparr>rows := map (\<lambda>r. if id' r = Some i then merge r d else r) (rows repo)\<rparr>)
          else Repository_insert d (max (nextId repo) (i + 1)) repo)"

text \<open>
  \<^verbatim>\<open>update(criteria, partial)\<close> with a key as criteria: the rows with that key take
  the properties of \<open>partial\<close>; the result is the number of rows affected. Missing
  criteria are refused.
\<close>

definition Repository_update :: "int option \<Rightarrow> user \<Rightarrow> repository \<Rightarrow> (error + nat) \<times> repository" where
  "Repository_update criteria d repo =
     (case criteria of
        None \<Rightarrow> (Inl TypeORMError, repo)
      | Some i \<Rightarrow>
          (Inr (length (filter (\<lambda>r. id' r = Some i) (rows repo))),
           repo\<lparr>rows := map (\<lambda>r. if id' r = Some i then merge r d else r) (rows repo)\<rparr>))"

subsection \<open>BaseService (src/service/base.ts), at the entity \<open>User\<close>\<close>

definition BaseService_add :: "user \<Rightarrow> repository \<Rightarrow> (error + user) \<times> repository" where
  "BaseService_add query repo = Repository_save query repo"

definition BaseService_update :: "user \<Rightarrow> repository \<Rightarrow> (error + nat) \<times> repository" where
  "BaseService_update query repo = Repository_update (id' query) query repo"

definition BaseService_info :: "user \<Rightarrow> repository \<Rightarrow> user option" where
  "BaseService_info d repo = Repository_findOne d repo"

text \<open>
  The body of a \<^verbatim>\<open>/page\<close> request, of which \<^verbatim>\<open>page\<close> reads \<^verbatim>\<open>page\<close> and
  \<^verbatim>\<open>size\<close>, and the object it returns.
\<close>

record page_data =
  page :: "int option"
  size' :: "int option"

record pagination =
  total :: nat
  size_p :: int
  page_p :: int

record page_result =
  list' :: "user list"
  pagination :: pagination

definition BaseService_page :: "page_data \<Rightarrow> repository \<Rightarrow> error + page_result" where
  "BaseService_page d repo =
     (let pg = (case page d of None \<Rightarrow> 1 | Some p \<Rightarrow> p);
          sz = (case size' d of None \<Rightarrow> 10 | Some s \<Rightarrow> s)
      in case Repository_findAndCount (Some empty_where) sz ((pg - 1) * sz) repo of
           Inl e \<Rightarrow> Inl e
         | Inr (l, t) \<Rightarrow>
             Inr \<lparr>list' = l, pagination = \<lparr>total = t, size_p = sz, page_p = pg\<rparr>\<rparr>)"

definition BaseService_list :: "user option \<Rightarrow> repository \<Rightarrow> user list" where
  "BaseService_list d repo = Repository_find d repo"

subsection \<open>UserService (src/service/user.ts)\<close>

text \<open>\<^verbatim>\<open>md5\<close> is the digest function of the package of that name, a parameter here.\<close>

text \<open>\<^verbatim>\<open>{ where: { username: data.username } }\<close>\<close>

definition where_username :: "'a user_scheme \<Rightarrow> user" where
  "where_username d =
     \<lparr>id' = None, username = username d, password = None, realname = None,
      nickname = None, roleId = None\<rparr>"

text \<open>
  \<^verbatim>\<open>if (data.password) { data.password = md5(data.password) }\<close>: a missing
  password and the empty string are falsy.
\<close>

definition hash_password :: "(string \<Rightarrow> string) \<Rightarrow> user \<Rightarrow> user" where
  "hash_password md5 d =
     (case password d of
        None \<Rightarrow> d
      | Some p \<Rightarrow> if p = [] then d else d\<lparr>password := Some (md5 p)\<rparr>)"

definition UserService_add ::
  "(string \<Rightarrow> string) \<Rightarrow> user \<Rightarrow> repository \<Rightarrow> (error + user) \<times> repository" where
  "UserService_add md5 d repo =
     (case Repository_findOne (where_username d) repo of
        Some u \<Rightarrow> (Inl (CustomHttpError USER_EXISTS), repo)
      | None \<Rightarrow> BaseService_add (hash_password md5 d) repo)"

definition UserService_update ::
  "(string \<Rightarrow> string) \<Rightarrow> user \<Rightarrow> repository \<Rightarrow> (error + nat) \<times> repository" where
  "UserService_update md5 d repo = BaseService_update (hash_password md5 d) repo"

text \<open>
  Modelled from the spec: \<^verbatim>\<open>UserService.login\<close>, which the controller calls, is
  not in the sources. The specification has the login flow verify the captcha,
  which \<^verbatim>\<open>getImageCaptcha\<close> cached under an identifier that the client supplies,
  then look the user up by username, compare the hash of the submitted password
  with the stored one and issue a token; a failure is the custom error kind with
  a message. The body of the request carries the identifier and the submitted
  value next to the properties of the user; an entry of the cache that has
  expired is an entry that is not there. The names of the two properties, the
  token issued and the messages of the failures are not given: the last two are
  parameters.
\<close>

record login_data = user +
  captchaId :: "string option"
  verifyCode :: "string option"

type_synonym captcha_cache = "string \<rightharpoonup> string"

definition captcha_ok :: "captcha_cache \<Rightarrow> login_data \<Rightarrow> bool" where
  "captcha_ok cache d =
     (case captchaId d of
        None \<Rightarrow> False
      | Some k \<Rightarrow>
          (case verifyCode d of
             None \<Rightarrow> False
           | Some v \<Rightarrow> cache k = Some v))"

definition UserService_login ::
  "(string \<Rightarrow> string) \<Rightarrow> (user \<Rightarrow> 'tok) \<Rightarrow> string \<Rightarrow> string \<Rightarrow> captcha_cache \<Rightarrow> login_data \<Rightarrow>
   repository \<Rightarrow> error + 'tok" where
  "UserService_login md5 issue cmsg msg cache d repo =
     (if \<not> captcha_ok cache d then Inl (CustomHttpError cmsg)
      else case Repository_findOne (where_username d) repo of
        None \<Rightarrow> Inl (CustomHttpError msg)
      | Some u \<Rightarrow>
          (case password d of
             None \<Rightarrow> Inl (CustomHttpError msg)
           | Some p \<Rightarrow>
               if password u = Some (md5 p) then Inr (issue u)
               else Inl (CustomHttpError msg)))"

subsection \<open>UserController (src/controller/user.ts)\<close>

text \<open>
  A handler returns the envelope, or the exception of the service call, which it
  does not catch. \<^verbatim>\<open>list\<close> declares no \<^verbatim>\<open>@Body()\<close> parameter: the body of the
  request is the first argument here and is not used.
\<close>

definition UserController_list :: "'body \<Rightarrow> repository \<Rightarrow> user list IResult" where
  "UserController_list body repo = BaseController_success (Some (BaseService_list None repo)) None"

definition UserController_page :: "page_data \<Rightarrow> repository \<Rightarrow> error + page_result IResult" where
  "UserController_page d repo =
     (case BaseService_page d repo of
        Inl e \<Rightarrow> Inl e
      | Inr res \<Rightarrow> Inr (BaseController_success (Some res) None))"

definition UserController_info :: "user \<Rightarrow> repository \<Rightarrow> user IResult" where
  "UserController_info d repo = BaseController_success (BaseService_info d repo) None"

definition UserController_add ::
  "(string \<Rightarrow> string) \<Rightarrow> user \<Rightarrow> repository \<Rightarrow> (error + user IResult) \<times> repository" where
  "UserController_add md5 d repo =
     (case UserService_add md5 d repo of
        (Inl e, repo') \<Rightarrow> (Inl e, repo')
      | (Inr res, repo') \<Rightarrow> (Inr (BaseController_success (Some res) None), repo'))"

definition UserController_update ::
  "(string \<Rightarrow> string) \<Rightarrow> user \<Rightarrow> repository \<Rightarrow> (error + 'a IResult) \<times> repository" where
  "UserController_update md5 d repo =
     (case UserService_update md5 d repo of
        (Inl e, repo') \<Rightarrow> (Inl e, repo')
      | (Inr n, repo') \<Rightarrow> (Inr (BaseController_success None None), repo'))"

definition UserController_login ::
  "(string \<Rightarrow> string) \<Rightarrow> (user \<Rightarrow> 'tok) \<Rightarrow> string \<Rightarrow> string \<Rightarrow> captcha_cache \<Rightarrow> login_data \<Rightarrow>
   repository \<Rightarrow> error + 'tok IResult" where
  "UserController_login md5 issue cmsg msg cache d repo =
     (case UserService_login md5 issue cmsg msg cache d repo of
        Inl e \<Rightarrow> Inl e
      | Inr res \<Rightarrow> Inr (BaseController_success (Some res) None))"

text \<open>
  Modelled from the spec: the code that catches what a handler throws is not in
  the sources. The specification has it translate the error, which carries a
  message, to the error envelope with the fixed error code: the call
  \<^verbatim>\<open>error(message)\<close> of the base controller.
\<close>

fun error_message :: "error \<Rightarrow> string option" where
  "error_message (CustomHttpError m) = Some m"
| "error_message TypeORMError = None"
| "error_message QueryFailedError = None"

definition respond :: "error + 'a IResult \<Rightarrow> 'a IResult" where
  "respond r = (case r of Inl e \<Rightarrow> BaseController_error (error_message e) None | Inr res \<Rightarrow> res)"

subsection \<open>Example data\<close>

text \<open>
  A stand-in for the digest, a request body with the three properties the
  examples use, a table of three users, a login request and a cache holding
  one captcha.
\<close>

definition example_md5 :: "string \<Rightarrow> string" where
  "example_md5 s = ''md5:'' @ s"

definition example_body :: "int option \<Rightarrow> string option \<Rightarrow> string option \<Rightarrow> user" where
  "example_body i n p =
     \<lparr>id' = i, username = n, password = p, realname = None, nickname = None, roleId = None\<rparr>"

definition example_repo :: repository where
  "example_repo =
     \<lparr>rows = [example_body (Some 1) (Some ''ann'') (Some ''md5:pw1''),
              example_body (Some 2) (Some ''bob'') (Some ''md5:pw2''),
              example_body (Some 3) (Some ''cy'') (Some ''md5:pw3'')],
      nextId = 4\<rparr>"

definition example_login ::
  "string option \<Rightarrow> string option \<Rightarrow> string option \<Rightarrow> string option \<Rightarrow> login_data" where
  "example_login n p k v =
     \<lparr>id' = None, username = n, password = p, realname = None, nickname = None, roleId = None,
      captchaId = k, verifyCode = v\<rparr>"

definition example_cache :: captcha_cache where
  "example_cache = [''session1'' \<mapsto> ''x7k9'']"

section \<open>Properties\<close>

subsection \<open>The envelope\<close>

lemma BaseController_success_default:
  "BaseController_success d None = \<lparr>data = d, code = Some 200, message = Some ''success''\<rparr>"
  by (simp add: BaseController_success_def Result_success_def default_arg_def empty_option_def
      DEFAULT_SUCCESS_CODE_def)

lemma BaseController_error_default:
  "BaseController_error msg None =
     \<lparr>data = None, code = Some 900,
      message = Some (case msg of None \<Rightarrow> ''error'' | Some m \<Rightarrow> m)\<rparr>"
  by (simp add: BaseController_error_def Result_error_def default_arg_def empty_option_def
      DEFAULT_ERROR_CODE_def)

text \<open>
  C5. An envelope has the three properties \<open>code\<close>, \<open>data\<close> and \<open>message\<close>, and
  neither constructor leaves the code or the message out; \<^verbatim>\<open>this.success(res)\<close>,
  with which every handler answers, is the envelope with code 200 around \<open>res\<close>. With
  no option the success constructor gives code 200, message \<^verbatim>\<open>success\<close> and data
  null, the error constructor code 900, message \<^verbatim>\<open>error\<close> and data null; a code,
  a datum or a message that the option supplies is the one returned.
\<close>

theorem Result_defaults_and_overrides:
  "code (Result_success option) \<noteq> None \<and> message (Result_success option) \<noteq> None
   \<and> code (Result_error option) \<noteq> None \<and> message (Result_error option) \<noteq> None
   \<and> BaseController_success res None =
       \<lparr>data = res, code = Some 200, message = Some ''success''\<rparr>
   \<and> Result_success None = \<lparr>data = None, code = Some 200, message = Some ''success''\<rparr>
   \<and> Result_error None = \<lparr>data = None, code = Some 900, message = Some ''error''\<rparr>
   \<and> Result_success (Some \<lparr>data = None, code = None, message = None\<rparr>)
       = \<lparr>data = None, code = Some 200, message = Some ''success''\<rparr>
   \<and> Result_error (Some \<lparr>data = None, code = None, message = None\<rparr>)
       = \<lparr>data = None, code = Some 900, message = Some ''error''\<rparr>
   \<and> Result_success (Some \<lparr>data = Some d, code = Some c, message = Some m\<rparr>)
       = \<lparr>data = Some d, code = Some c, message = Some m\<rparr>
   \<and> Result_error (Some \<lparr>data = Some d, code = Some c, message = Some m\<rparr>)
       = \<lparr>data = Some d, code = Some c, message = Some m\<rparr>
   \<and> code (Result_success (Some (opt\<lparr>code := Some c\<rparr>))) = Some c
   \<and> code (Result_error (Some (opt\<lparr>code := Some c\<rparr>))) = Some c
   \<and> message (Result_success (Some (opt\<lparr>message := Some m\<rparr>))) = Some m
   \<and> message (Result_error (Some (opt\<lparr>message := Some m\<rparr>))) = Some m
   \<and> data (Result_success (Some opt)) = data opt
   \<and> data (Result_error (Some opt)) = data opt
   \<and> code (Result_success (Some (opt\<lparr>code := None\<rparr>))) = Some 200
   \<and> code (Result_error (Some (opt\<lparr>code := None\<rparr>))) = Some 900
   \<and> message (Result_success (Some (opt\<lparr>message := None\<rparr>))) = Some ''success''
   \<and> message (Result_error (Some (opt\<lparr>message := None\<rparr>))) = Some ''error''"
  by (simp add: Result_success_def Result_error_def default_arg_def empty_option_def
      DEFAULT_SUCCESS_CODE_def DEFAULT_ERROR_CODE_def BaseController_success_def Let_def)



subsection \<open>BaseService\<close>

lemma matches_empty_where: "matches empty_where r"
  by (simp add: matches_def empty_where_def column_ok_def)

lemma findAndCount_all:
  "0 \<le> tk \<Longrightarrow> 0 \<le> sk \<Longrightarrow>
   Repository_findAndCount (Some empty_where) tk sk repo =
     Inr (take (nat tk) (drop (nat sk) (rows repo)), length (rows repo))"
  by (simp add: Repository_findAndCount_def where_clause_def matches_empty_where Let_def)

text \<open>
  C3. On every table \<^verbatim>\<open>page({page: 2, size: 10})\<close> returns the rows after the first
  ten, at most ten of them, with \<open>total\<close> the number of all rows of the table and
  \<open>size\<close> and \<open>page\<close> as given. A missing \<open>page\<close> is 1 and a missing \<open>size\<close> is
  10. For a page \<open>p\<close> from 1 and a size \<open>s\<close> from 0 the list is the \<open>s\<close> rows after
  the first \<open>(p - 1) * s\<close>.
\<close>

theorem page_slice_and_total:
  "BaseService_page \<lparr>page = Some 2, size' = Some 10\<rparr> repo =
     Inr \<lparr>list' = take 10 (drop 10 (rows repo)),
          pagination = \<lparr>total = length (rows repo), size_p = 10, page_p = 2\<rparr>\<rparr>
   \<and> length (take 10 (drop 10 (rows repo))) \<le> 10
   \<and> BaseService_page \<lparr>page = None, size' = None\<rparr> repo =
     Inr \<lparr>list' = take 10 (rows repo),
          pagination = \<lparr>total = length (rows repo), size_p = 10, page_p = 1\<rparr>\<rparr>
   \<and> BaseService_page \<lparr>page = None, size' = Some s\<rparr> repo =
       BaseService_page \<lparr>page = Some 1, size' = Some s\<rparr> repo
   \<and> BaseService_page \<lparr>page = Some p, size' = None\<rparr> repo =
       BaseService_page \<lparr>page = Some p, size' = Some 10\<rparr> repo
   \<and> (1 \<le> p \<and> 0 \<le> s \<longrightarrow>
        BaseService_page \<lparr>page = Some p, size' = Some s\<rparr> repo =
          Inr \<lparr>list' = take (nat s) (drop (nat ((p - 1) * s)) (rows repo)),
               pagination = \<lparr>total = length (rows repo), size_p = s, page_p = p\<rparr>\<rparr>)"
  by (simp add: BaseService_page_def findAndCount_all)

theorem page_slice_and_total_witness:
  "(1::int) \<le> 2 \<and> (0::int) \<le> 2
   \<and> BaseService_page \<lparr>page = Some 2, size' = Some 2\<rparr> example_repo =
       Inr \<lparr>list' = [example_body (Some 3) (Some ''cy'') (Some ''md5:pw3'')],
            pagination = \<lparr>total = 3, size_p = 2, page_p = 2\<rparr>\<rparr>"
  using page_slice_and_total [where p = 2 and s = 2 and repo = example_repo]
  by (simp add: example_repo_def)

lemma find_filter: "find P xs = (case filter P xs of [] \<Rightarrow> None | r # _ \<Rightarrow> Some r)"
  by (induction xs) auto

text \<open>
  C7. \<^verbatim>\<open>info(filter)\<close> is the first row of the table that matches the filter, and
  null when no row matches: it is the head of the list of matching rows; it is
  null exactly when no row matches; it is \<open>r\<close> exactly when \<open>r\<close> is a matching row
  with no matching row before it.
\<close>

theorem info_first_match_or_null:
  "BaseService_info f repo =
     (case filter (matches f) (rows repo) of [] \<Rightarrow> None | r # _ \<Rightarrow> Some r)
   \<and> (BaseService_info f repo = None \<longleftrightarrow> (\<forall>r \<in> set (rows repo). \<not> matches f r))
   \<and> (BaseService_info f repo = Some r \<longleftrightarrow>
        (\<exists>i < length (rows repo). matches f (rows repo ! i) \<and> r = rows repo ! i
           \<and> (\<forall>j < i. \<not> matches f (rows repo ! j))))"
proof -
  have a: "BaseService_info f repo = find (matches f) (rows repo)"
    by (simp add: BaseService_info_def Repository_findOne_def)
  have b: "(find (matches f) (rows repo) = None) = (\<forall>r \<in> set (rows repo). \<not> matches f r)"
    by (auto simp add: find_None_iff)
  show ?thesis
    unfolding a b find_Some_iff using find_filter [of "matches f" "rows repo"] by simp
qed

theorem info_first_match_or_null_witness:
  "(\<exists>i < length (rows example_repo).
      matches (example_body None (Some ''bob'') None) (rows example_repo ! i)
      \<and> (\<forall>j < i. \<not> matches (example_body None (Some ''bob'') None) (rows example_repo ! j)))
   \<and> BaseService_info (example_body None (Some ''bob'') None) example_repo =
       Some (example_body (Some 2) (Some ''bob'') (Some ''md5:pw2''))
   \<and> \<not> (\<exists>r \<in> set (rows example_repo). matches (example_body None (Some ''dan'') None) r)
   \<and> BaseService_info (example_body None (Some ''dan'') None) example_repo = None"
proof -
  have m: "matches (example_body None (Some ''bob'') None) (rows example_repo ! 1)"
    "\<forall>j < (1::nat). \<not> matches (example_body None (Some ''bob'') None) (rows example_repo ! j)"
    "(1::nat) < length (rows example_repo)"
    "rows example_repo ! 1 = example_body (Some 2) (Some ''bob'') (Some ''md5:pw2'')"
    by (simp_all add: example_repo_def example_body_def matches_def column_ok_def)
  have n: "\<forall>r \<in> set (rows example_repo). \<not> matches (example_body None (Some ''dan'') None) r"
    by (simp add: example_repo_def example_body_def matches_def column_ok_def)
  have "BaseService_info (example_body None (Some ''bob'') None) example_repo =
       Some (example_body (Some 2) (Some ''bob'') (Some ''md5:pw2''))"
    using info_first_match_or_null [where f = "example_body None (Some ''bob'') None"
        and repo = example_repo and r = "example_body (Some 2) (Some ''bob'') (Some ''md5:pw2'')"] m
    by metis
  moreover have "BaseService_info (example_body None (Some ''dan'') None) example_repo = None"
    using info_first_match_or_null [where f = "example_body None (Some ''dan'') None"
        and repo = example_repo] n
    by blast
  ultimately show ?thesis
    using m n by blast
qed

text \<open>
  C8. The handler of \<^verbatim>\<open>/user/list\<close> does not read the body of the request: for
  every body, of whatever type, it calls \<^verbatim>\<open>list()\<close> without an argument, which selects
  every row, and answers with the success envelope around all the rows of the
  table; two requests with different bodies get the same answer.
\<close>

theorem list_ignores_body:
  "UserController_list request repo =
     \<lparr>data = Some (rows repo), code = Some 200, message = Some ''success''\<rparr>
   \<and> UserController_list request repo = UserController_list other_request repo
   \<and> BaseService_list None repo = rows repo"
  by (simp add: UserController_list_def BaseController_success_default BaseService_list_def
      Repository_find_def where_clause_def)

subsection \<open>UserService\<close>

lemma matches_where_username:
  "matches (where_username d) r \<longleftrightarrow> column_ok (username d) (username r)"
  by (simp add: matches_def where_username_def column_ok_def)

lemma findOne_username_taken:
  "username d = Some u \<Longrightarrow> \<exists>r \<in> set (rows repo). username r = Some u \<Longrightarrow>
   \<exists>r. Repository_findOne (where_username d) repo = Some r"
  by (cases "Repository_findOne (where_username d) repo")
     (auto simp add: Repository_findOne_def find_None_iff matches_where_username column_ok_def)

lemma findOne_username_free:
  "username d = Some u \<Longrightarrow> \<forall>r \<in> set (rows repo). username r \<noteq> Some u \<Longrightarrow>
   Repository_findOne (where_username d) repo = None"
  by (auto simp add: Repository_findOne_def find_None_iff matches_where_username column_ok_def)

lemma hash_password_other [simp]:
  "id' (hash_password md5 d) = id' d" "username (hash_password md5 d) = username d"
  by (simp_all add: hash_password_def split: option.splits)

lemma hash_password_plain:
  "password d = Some p \<Longrightarrow> p \<noteq> [] \<Longrightarrow> hash_password md5 d = d\<lparr>password := Some (md5 p)\<rparr>"
  by (simp add: hash_password_def)

lemma hash_password_skip:
  "password d = None \<or> password d = Some [] \<Longrightarrow> hash_password md5 d = d"
  by (auto simp add: hash_password_def)

lemma merge_password: "password d = Some h \<Longrightarrow> password (merge r d) = Some h"
  by (simp add: merge_def column_set_def)

lemma merge_id: "id' d = Some i \<Longrightarrow> id' (merge r d) = Some i"
  by (simp add: merge_def column_set_def)

lemma set_insert_row: "set (insert_row e rs) = insert e (set rs)"
  by (induction rs) auto

lemma mset_insert_row: "mset (insert_row e rs) = add_mset e (mset rs)"
  by (induction rs) auto

lemma insert_written:
  assumes "Repository_insert e0 next repo = (Inr e, repo')" and "password e0 = Some h"
  shows "e = e0 \<and> rows repo' = insert_row e0 (rows repo)"
  using assms by (auto simp add: Repository_insert_def split: if_splits)

lemma save_written:
  assumes "Repository_save d repo = (Inr e, repo')" and "password d = Some h"
  shows "password e = Some h
       \<and> (\<exists>r \<in> set (rows repo'). id' r = id' e \<and> password r = Some h)
       \<and> (\<forall>r \<in> set (rows repo'). r \<notin> set (rows repo) \<longrightarrow> password r = Some h)"
proof (cases "id' d")
  case None
  with assms(1) have "Repository_insert (d\<lparr>id' := Some (nextId repo)\<rparr>) (nextId repo + 1) repo
      = (Inr e, repo')"
    by (simp add: Repository_save_def)
  from insert_written [OF this] assms(2)
  have "e = d\<lparr>id' := Some (nextId repo)\<rparr>" and "rows repo' = insert_row e (rows repo)"
    by simp_all
  with assms(2) show ?thesis
    by (auto simp add: set_insert_row)
next
  case (Some i)
  show ?thesis
  proof (cases "\<exists>r \<in> set (rows repo). id' r = Some i")
    case True
    with Some assms(1) have e: "e = d"
      and r: "rows repo' = map (\<lambda>r. if id' r = Some i then merge r d else r) (rows repo)"
      by (auto simp add: Repository_save_def)
    from True obtain r0 where r0: "r0 \<in> set (rows repo)" "id' r0 = Some i" by blast
    then have "merge r0 d \<in> set (rows repo')"
      unfolding r by force
    moreover have "id' (merge r0 d) = id' e \<and> password (merge r0 d) = Some h"
      using e Some assms(2) by (simp add: merge_id merge_password)
    moreover have "\<forall>r \<in> set (rows repo'). r \<notin> set (rows repo) \<longrightarrow> password r = Some h"
      unfolding r using assms(2) by (auto simp add: merge_password)
    ultimately show ?thesis
      using e assms(2) by blast
  next
    case False
    with Some assms(1) have "Repository_insert d (max (nextId repo) (i + 1)) repo = (Inr e, repo')"
      by (simp add: Repository_save_def)
    from insert_written [OF this assms(2)]
    have "e = d" and "rows repo' = insert_row e (rows repo)"
      by simp_all
    with assms(2) show ?thesis
      by (auto simp add: set_insert_row)
  qed
qed

lemma update_written:
  assumes "Repository_update (id' d) d repo = (Inr n, repo')" and "password d = Some h"
  shows "(\<forall>r \<in> set (rows repo'). id' r = id' d \<longrightarrow> password r = Some h)
       \<and> (\<forall>r \<in> set (rows repo'). r \<notin> set (rows repo) \<longrightarrow> password r = Some h)"
proof (cases "id' d")
  case None
  with assms(1) show ?thesis
    by (simp add: Repository_update_def)
next
  case (Some i)
  with assms(1) have r: "rows repo' = map (\<lambda>r. if id' r = Some i then merge r d else r) (rows repo)"
    by (auto simp add: Repository_update_def)
  show ?thesis
    unfolding r using Some assms(2) by (auto simp add: merge_password)
qed

lemma merge_keeps_password: "password d = None \<Longrightarrow> password (merge r d) = password r"
  by (simp add: merge_def column_set_def)

text \<open>
  C1. For \<^verbatim>\<open>add(data)\<close> with the username \<open>u\<close>: when a stored user has the
  username \<open>u\<close> the call fails with the error \<open>USER_EXISTS\<close> and the table is the
  one it was. When no stored user has it, the record, with its password hashed,
  is inserted if it carries a password and its key is missing (the row goes in
  under the next generated key) or is the key of no stored row (the row goes in
  under that key): the new table has the rows of the old and that one more. With
  the key of a stored row the call updates that row and inserts none. As the
  claim words it, with every record of a new username inserted, it fails for a
  record with a stored key and for a record without a password.
\<close>

theorem add_duplicate_username:
  assumes "username d = Some u"
  shows "((\<exists>r \<in> set (rows repo). username r = Some u) \<longrightarrow>
            UserService_add md5 d repo = (Inl (CustomHttpError USER_EXISTS), repo))
       \<and> ((\<forall>r \<in> set (rows repo). username r \<noteq> Some u) \<and> password d \<noteq> None \<and> id' d = None \<longrightarrow>
            UserService_add md5 d repo =
              (Inr ((hash_password md5 d)\<lparr>id' := Some (nextId repo)\<rparr>),
               \<lparr>rows = insert_row ((hash_password md5 d)\<lparr>id' := Some (nextId repo)\<rparr>) (rows repo),
                nextId = nextId repo + 1\<rparr>)
            \<and> mset (insert_row ((hash_password md5 d)\<lparr>id' := Some (nextId repo)\<rparr>) (rows repo))
                = add_mset ((hash_password md5 d)\<lparr>id' := Some (nextId repo)\<rparr>) (mset (rows repo)))
       \<and> ((\<forall>r \<in> set (rows repo). username r \<noteq> Some u) \<and> password d \<noteq> None \<and> id' d = Some i
            \<and> (\<forall>r \<in> set (rows repo). id' r \<noteq> Some i) \<longrightarrow>
            UserService_add md5 d repo =
              (Inr (hash_password md5 d),
               \<lparr>rows = insert_row (hash_password md5 d) (rows repo),
                nextId = max (nextId repo) (i + 1)\<rparr>)
            \<and> mset (insert_row (hash_password md5 d) (rows repo))
                = add_mset (hash_password md5 d) (mset (rows repo)))
       \<and> ((\<forall>r \<in> set (rows repo). username r \<noteq> Some u) \<and> id' d = Some i
            \<and> (\<exists>r \<in> set (rows repo). id' r = Some i) \<longrightarrow>
            UserService_add md5 d repo =
              (Inr (hash_password md5 d),
               repo\<lparr>rows := map (\<lambda>r. if id' r = Some i then merge r (hash_password md5 d) else r)
                               (rows repo)\<rparr>)
            \<and> length (map (\<lambda>r. if id' r = Some i then merge r (hash_password md5 d) else r)
                  (rows repo)) = length (rows repo))"
proof (intro conjI impI)
  assume "\<exists>r \<in> set (rows repo). username r = Some u"
  with assms obtain r where "Repository_findOne (where_username d) repo = Some r"
    using findOne_username_taken by blast
  then show "UserService_add md5 d repo = (Inl (CustomHttpError USER_EXISTS), repo)"
    by (simp add: UserService_add_def)
next
  assume a: "(\<forall>r \<in> set (rows repo). username r \<noteq> Some u) \<and> password d \<noteq> None \<and> id' d = None"
  with assms have "Repository_findOne (where_username d) repo = None"
    using findOne_username_free by blast
  moreover have "password (hash_password md5 d) \<noteq> None"
    using a by (auto simp add: hash_password_def)
  ultimately show "UserService_add md5 d repo =
      (Inr ((hash_password md5 d)\<lparr>id' := Some (nextId repo)\<rparr>),
       \<lparr>rows = insert_row ((hash_password md5 d)\<lparr>id' := Some (nextId repo)\<rparr>) (rows repo),
        nextId = nextId repo + 1\<rparr>)"
    using a assms
    by (simp add: UserService_add_def BaseService_add_def Repository_save_def
        Repository_insert_def)
next
  assume a: "(\<forall>r \<in> set (rows repo). username r \<noteq> Some u) \<and> password d \<noteq> None \<and> id' d = Some i
      \<and> (\<forall>r \<in> set (rows repo). id' r \<noteq> Some i)"
  with assms have "Repository_findOne (where_username d) repo = None"
    using findOne_username_free by blast
  moreover have "password (hash_password md5 d) \<noteq> None"
    using a by (auto simp add: hash_password_def)
  ultimately show "UserService_add md5 d repo =
      (Inr (hash_password md5 d),
       \<lparr>rows = insert_row (hash_password md5 d) (rows repo), nextId = max (nextId repo) (i + 1)\<rparr>)"
    using a assms
    by (simp add: UserService_add_def BaseService_add_def Repository_save_def
        Repository_insert_def)
next
  assume a: "(\<forall>r \<in> set (rows repo). username r \<noteq> Some u) \<and> id' d = Some i
      \<and> (\<exists>r \<in> set (rows repo). id' r = Some i)"
  with assms have "Repository_findOne (where_username d) repo = None"
    using findOne_username_free by blast
  with a show "UserService_add md5 d repo =
      (Inr (hash_password md5 d),
       repo\<lparr>rows := map (\<lambda>r. if id' r = Some i then merge r (hash_password md5 d) else r)
                       (rows repo)\<rparr>)"
    by (simp add: UserService_add_def BaseService_add_def Repository_save_def)
qed (simp_all add: mset_insert_row)

theorem add_duplicate_username_witness:
  "username (example_body None (Some ''bob'') (Some ''x'')) = Some ''bob''
   \<and> (\<exists>r \<in> set (rows example_repo). username r = Some ''bob'')
   \<and> UserService_add example_md5 (example_body None (Some ''bob'') (Some ''x'')) example_repo =
       (Inl (CustomHttpError USER_EXISTS), example_repo)
   \<and> username (example_body None (Some ''dan'') (Some ''x'')) = Some ''dan''
   \<and> \<not> (\<exists>r \<in> set (rows example_repo). username r = Some ''dan'')
   \<and> password (example_body None (Some ''dan'') (Some ''x'')) \<noteq> None
   \<and> id' (example_body None (Some ''dan'') (Some ''x'')) = None
   \<and> UserService_add example_md5 (example_body None (Some ''dan'') (Some ''x'')) example_repo =
       (Inr (example_body (Some 4) (Some ''dan'') (Some ''md5:x'')),
        \<lparr>rows = rows example_repo @ [example_body (Some 4) (Some ''dan'') (Some ''md5:x'')],
         nextId = 5\<rparr>)
   \<and> \<not> (\<exists>r \<in> set (rows example_repo). id' r = Some 0)
   \<and> UserService_add example_md5 (example_body (Some 0) (Some ''dan'') (Some ''x'')) example_repo =
       (Inr (example_body (Some 0) (Some ''dan'') (Some ''md5:x'')),
        \<lparr>rows = example_body (Some 0) (Some ''dan'') (Some ''md5:x'') # rows example_repo,
         nextId = 4\<rparr>)
   \<and> (\<exists>r \<in> set (rows example_repo). id' r = Some 2)
   \<and> UserService_add example_md5 (example_body (Some 2) (Some ''dan'') (Some ''x'')) example_repo =
       (Inr (example_body (Some 2) (Some ''dan'') (Some ''md5:x'')),
        \<lparr>rows = [example_body (Some 1) (Some ''ann'') (Some ''md5:pw1''),
                 example_body (Some 2) (Some ''dan'') (Some ''md5:x''),
                 example_body (Some 3) (Some ''cy'') (Some ''md5:pw3'')],
         nextId = 4\<rparr>)"
  using add_duplicate_username [of "example_body None (Some ''bob'') (Some ''x'')" "''bob''"
      example_repo example_md5]
    add_duplicate_username [of "example_body None (Some ''dan'') (Some ''x'')" "''dan''"
      example_repo example_md5]
    add_duplicate_username [of "example_body (Some 0) (Some ''dan'') (Some ''x'')" "''dan''"
      example_repo example_md5 0]
    add_duplicate_username [of "example_body (Some 2) (Some ''dan'') (Some ''x'')" "''dan''"
      example_repo example_md5 2]
  by (simp add: example_body_def example_repo_def example_md5_def hash_password_def
      UserService_add_def BaseService_add_def Repository_findOne_def Repository_save_def
      Repository_insert_def key_before_def matches_def where_username_def column_ok_def
      merge_def column_set_def)

theorem add_duplicate_username_counterexample:
  "\<not> (\<exists>r \<in> set (rows example_repo). username r = Some ''dan'')
   \<and> UserService_add example_md5 (example_body (Some 2) (Some ''dan'') (Some ''x'')) example_repo =
       (Inr (example_body (Some 2) (Some ''dan'') (Some ''md5:x'')),
        \<lparr>rows = [example_body (Some 1) (Some ''ann'') (Some ''md5:pw1''),
                 example_body (Some 2) (Some ''dan'') (Some ''md5:x''),
                 example_body (Some 3) (Some ''cy'') (Some ''md5:pw3'')],
         nextId = 4\<rparr>)
   \<and> length (rows example_repo) = 3
   \<and> UserService_add example_md5 (example_body None (Some ''dan'') None) example_repo =
       (Inl QueryFailedError, example_repo)"
  by (simp add: example_body_def example_repo_def example_md5_def hash_password_def
      UserService_add_def BaseService_add_def Repository_findOne_def Repository_save_def
      Repository_insert_def key_before_def matches_def where_username_def column_ok_def
      merge_def column_set_def)

text \<open>
  C9. For \<^verbatim>\<open>add(data)\<close> with a username that no stored user has and a password
  that is missing or the empty string: the hashing step leaves the record as it
  is and the call is the generic \<^verbatim>\<open>add\<close> of the record as submitted. With the
  empty string the call succeeds, and the record returned, a row with its key
  and every row written have the empty password, not a hash. With the password
  missing no row is stored without a password: unless the record has the key of
  a stored row the insert is refused with \<open>QueryFailedError\<close> and the table is
  the one it was, and with the key of a stored row that row is updated and every
  row keeps the password it had. As the claim words it, with a record stored
  with its password missing, it fails.
\<close>

theorem add_without_password_not_hashed:
  assumes "password d = None \<or> password d = Some []"
    and "username d = Some u"
    and "\<forall>r \<in> set (rows repo). username r \<noteq> Some u"
  shows "hash_password md5 d = d
       \<and> UserService_add md5 d repo = BaseService_add d repo
       \<and> (password d = Some [] \<longrightarrow>
            (\<exists>e repo'. UserService_add md5 d repo = (Inr e, repo')
               \<and> password e = Some []
               \<and> (\<exists>r \<in> set (rows repo'). id' r = id' e \<and> password r = Some [])
               \<and> (\<forall>r \<in> set (rows repo'). r \<notin> set (rows repo) \<longrightarrow> password r = Some [])))
       \<and> (password d = None \<and> \<not> (\<exists>r \<in> set (rows repo). id' d \<noteq> None \<and> id' r = id' d) \<longrightarrow>
            UserService_add md5 d repo = (Inl QueryFailedError, repo))
       \<and> (password d = None \<and> (\<exists>r \<in> set (rows repo). id' d \<noteq> None \<and> id' r = id' d) \<longrightarrow>
            (\<exists>repo'. UserService_add md5 d repo = (Inr d, repo')
               \<and> map password (rows repo') = map password (rows repo)))"
proof -
  have h: "hash_password md5 d = d"
    using assms(1) by (rule hash_password_skip)
  have f: "Repository_findOne (where_username d) repo = None"
    using assms(2,3) by (rule findOne_username_free)
  have a: "UserService_add md5 d repo = Repository_save d repo"
    using h f by (simp add: UserService_add_def BaseService_add_def)
  have empty: "\<exists>e repo'. UserService_add md5 d repo = (Inr e, repo')
               \<and> password e = Some []
               \<and> (\<exists>r \<in> set (rows repo'). id' r = id' e \<and> password r = Some [])
               \<and> (\<forall>r \<in> set (rows repo'). r \<notin> set (rows repo) \<longrightarrow> password r = Some [])"
    if p: "password d = Some []"
  proof -
    have "\<exists>e repo'. Repository_save d repo = (Inr e, repo')"
      using p assms(2)
      by (simp add: Repository_save_def Repository_insert_def split: option.splits)
    then obtain e repo' where s: "Repository_save d repo = (Inr e, repo')"
      by blast
    from save_written [OF s p] a s show ?thesis
      by simp
  qed
  have refused: "UserService_add md5 d repo = (Inl QueryFailedError, repo)"
    if "password d = None" "\<not> (\<exists>r \<in> set (rows repo). id' d \<noteq> None \<and> id' r = id' d)"
    using that a by (cases "id' d") (auto simp add: Repository_save_def Repository_insert_def)
  have kept: "\<exists>repo'. UserService_add md5 d repo = (Inr d, repo')
               \<and> map password (rows repo') = map password (rows repo)"
    if p: "password d = None" and k: "\<exists>r \<in> set (rows repo). id' d \<noteq> None \<and> id' r = id' d"
  proof -
    from k obtain i where i: "id' d = Some i" "\<exists>r \<in> set (rows repo). id' r = Some i"
      by (cases "id' d") auto
    then have "UserService_add md5 d repo =
        (Inr d, repo\<lparr>rows := map (\<lambda>r. if id' r = Some i then merge r d else r) (rows repo)\<rparr>)"
      using a by (simp add: Repository_save_def)
    moreover have "map password (map (\<lambda>r. if id' r = Some i then merge r d else r) (rows repo))
        = map password (rows repo)"
      using p by (simp add: merge_keeps_password)
    ultimately show ?thesis
      by simp
  qed
  show ?thesis
    using h a empty refused kept by (simp add: BaseService_add_def)
qed

theorem add_without_password_not_hashed_witness:
  "(password (example_body None (Some ''dan'') (Some [])) = None
      \<or> password (example_body None (Some ''dan'') (Some [])) = Some [])
   \<and> username (example_body None (Some ''dan'') (Some [])) = Some ''dan''
   \<and> \<not> (\<exists>r \<in> set (rows example_repo). username r = Some ''dan'')
   \<and> UserService_add example_md5 (example_body None (Some ''dan'') (Some [])) example_repo =
       (Inr (example_body (Some 4) (Some ''dan'') (Some [])),
        \<lparr>rows = rows example_repo @ [example_body (Some 4) (Some ''dan'') (Some [])],
         nextId = 5\<rparr>)
   \<and> password (example_body None (Some ''dan'') None) = None
   \<and> \<not> (\<exists>r \<in> set (rows example_repo).
          id' (example_body None (Some ''dan'') None) \<noteq> None
          \<and> id' r = id' (example_body None (Some ''dan'') None))
   \<and> UserService_add example_md5 (example_body None (Some ''dan'') None) example_repo =
       (Inl QueryFailedError, example_repo)
   \<and> (\<exists>r \<in> set (rows example_repo).
         id' (example_body (Some 2) (Some ''dan'') None) \<noteq> None
         \<and> id' r = id' (example_body (Some 2) (Some ''dan'') None))
   \<and> UserService_add example_md5 (example_body (Some 2) (Some ''dan'') None) example_repo =
       (Inr (example_body (Some 2) (Some ''dan'') None),
        \<lparr>rows = [example_body (Some 1) (Some ''ann'') (Some ''md5:pw1''),
                 example_body (Some 2) (Some ''dan'') (Some ''md5:pw2''),
                 example_body (Some 3) (Some ''cy'') (Some ''md5:pw3'')],
         nextId = 4\<rparr>)"
  using add_without_password_not_hashed [of "example_body None (Some ''dan'') (Some [])" "''dan''"
      example_repo example_md5]
    add_without_password_not_hashed [of "example_body None (Some ''dan'') None" "''dan''"
      example_repo example_md5]
    add_without_password_not_hashed [of "example_body (Some 2) (Some ''dan'') None" "''dan''"
      example_repo example_md5]
  by (simp add: example_body_def example_repo_def hash_password_def
      UserService_add_def BaseService_add_def Repository_findOne_def Repository_save_def
      Repository_insert_def key_before_def matches_def where_username_def column_ok_def
      merge_def column_set_def)

theorem add_without_password_not_hashed_counterexample:
  "password (example_body None (Some ''dan'') None) = None
   \<and> \<not> (\<exists>r \<in> set (rows example_repo). username r = Some ''dan'')
   \<and> UserService_add example_md5 (example_body None (Some ''dan'') None) example_repo =
       (Inl QueryFailedError, example_repo)
   \<and> UserService_add example_md5 (example_body (Some 2) (Some ''dan'') None) example_repo =
       (Inr (example_body (Some 2) (Some ''dan'') None),
        \<lparr>rows = [example_body (Some 1) (Some ''ann'') (Some ''md5:pw1''),
                 example_body (Some 2) (Some ''dan'') (Some ''md5:pw2''),
                 example_body (Some 3) (Some ''cy'') (Some ''md5:pw3'')],
         nextId = 4\<rparr>)"
  by (simp add: example_body_def example_repo_def hash_password_def
      UserService_add_def BaseService_add_def Repository_findOne_def Repository_save_def
      Repository_insert_def key_before_def matches_def where_username_def column_ok_def
      merge_def column_set_def)

text \<open>
  C2. For \<^verbatim>\<open>add(data)\<close> and \<^verbatim>\<open>update(data)\<close> with a non-empty password \<open>p\<close>,
  when the call succeeds: the record returned by \<^verbatim>\<open>add\<close> and a row of the table
  with its key have the password \<open>md5 p\<close>; after \<^verbatim>\<open>update\<close> every row with the key
  of \<open>data\<close> has the password \<open>md5 p\<close>; and every row that the call wrote (a row of
  the new table that is not a row of the old one) has the password \<open>md5 p\<close>, which
  is not the plaintext unless the digest of \<open>p\<close> is \<open>p\<close> itself.
\<close>

theorem password_stored_hashed:
  assumes "password d = Some p" and "p \<noteq> []"
  shows "(UserService_add md5 d repo = (Inr e, repo') \<longrightarrow>
            password e = Some (md5 p)
          \<and> (\<exists>r \<in> set (rows repo'). id' r = id' e \<and> password r = Some (md5 p))
          \<and> (\<forall>r \<in> set (rows repo'). r \<notin> set (rows repo) \<longrightarrow>
                password r = Some (md5 p) \<and> (md5 p \<noteq> p \<longrightarrow> password r \<noteq> Some p)))
       \<and> (UserService_update md5 d repo = (Inr n, repo'') \<longrightarrow>
            (\<forall>r \<in> set (rows repo''). id' r = id' d \<longrightarrow> password r = Some (md5 p))
          \<and> (\<forall>r \<in> set (rows repo''). r \<notin> set (rows repo) \<longrightarrow>
                password r = Some (md5 p) \<and> (md5 p \<noteq> p \<longrightarrow> password r \<noteq> Some p)))"
proof (intro conjI impI)
  have h: "hash_password md5 d = d\<lparr>password := Some (md5 p)\<rparr>"
    using assms by (rule hash_password_plain)
  have hp: "password (hash_password md5 d) = Some (md5 p)"
    by (simp add: h)
  {
    assume "UserService_add md5 d repo = (Inr e, repo')"
    then have "Repository_save (hash_password md5 d) repo = (Inr e, repo')"
      by (auto simp add: UserService_add_def BaseService_add_def split: option.splits)
    from save_written [OF this hp]
    show "password e = Some (md5 p)"
      and "\<exists>r \<in> set (rows repo'). id' r = id' e \<and> password r = Some (md5 p)"
      and "\<forall>r \<in> set (rows repo'). r \<notin> set (rows repo) \<longrightarrow>
             password r = Some (md5 p) \<and> (md5 p \<noteq> p \<longrightarrow> password r \<noteq> Some p)"
      by auto
  }
  {
    assume "UserService_update md5 d repo = (Inr n, repo'')"
    then have "Repository_update (id' (hash_password md5 d)) (hash_password md5 d) repo = (Inr n, repo'')"
      by (simp add: UserService_update_def BaseService_update_def)
    from update_written [OF this hp]
    show "\<forall>r \<in> set (rows repo''). id' r = id' d \<longrightarrow> password r = Some (md5 p)"
      and "\<forall>r \<in> set (rows repo''). r \<notin> set (rows repo) \<longrightarrow>
             password r = Some (md5 p) \<and> (md5 p \<noteq> p \<longrightarrow> password r \<noteq> Some p)"
      by auto
  }
qed

theorem password_stored_hashed_witness:
  "password (example_body None (Some ''dan'') (Some ''x'')) = Some ''x'' \<and> ''x'' \<noteq> []
   \<and> UserService_add example_md5 (example_body None (Some ''dan'') (Some ''x'')) example_repo =
       (Inr (example_body (Some 4) (Some ''dan'') (Some ''md5:x'')),
        \<lparr>rows = rows example_repo @ [example_body (Some 4) (Some ''dan'') (Some ''md5:x'')],
         nextId = 5\<rparr>)
   \<and> password (example_body (Some 4) (Some ''dan'') (Some ''md5:x'')) = Some (example_md5 ''x'')
   \<and> example_md5 ''x'' \<noteq> ''x''
   \<and> password (example_body (Some 2) None (Some ''x'')) = Some ''x''
   \<and> UserService_update example_md5 (example_body (Some 2) None (Some ''x'')) example_repo =
       (Inr 1,
        \<lparr>rows = [example_body (Some 1) (Some ''ann'') (Some ''md5:pw1''),
                 example_body (Some 2) (Some ''bob'') (Some ''md5:x''),
                 example_body (Some 3) (Some ''cy'') (Some ''md5:pw3'')],
         nextId = 4\<rparr>)
   \<and> id' (example_body (Some 2) (Some ''bob'') (Some ''md5:x'')) = id' (example_body (Some 2) None (Some ''x''))
   \<and> password (example_body (Some 2) (Some ''bob'') (Some ''md5:x'')) = Some (example_md5 ''x'')"
  using password_stored_hashed [of "example_body None (Some ''dan'') (Some ''x'')" "''x''" example_md5
      example_repo "example_body (Some 4) (Some ''dan'') (Some ''md5:x'')"
      "\<lparr>rows = rows example_repo @ [example_body (Some 4) (Some ''dan'') (Some ''md5:x'')],
        nextId = 5\<rparr>"]
    password_stored_hashed [of "example_body (Some 2) None (Some ''x'')" "''x''" example_md5
      example_repo _ _ 1
      "\<lparr>rows = [example_body (Some 1) (Some ''ann'') (Some ''md5:pw1''),
                 example_body (Some 2) (Some ''bob'') (Some ''md5:x''),
                 example_body (Some 3) (Some ''cy'') (Some ''md5:pw3'')],
        nextId = 4\<rparr>"]
  by (simp add: example_body_def example_repo_def example_md5_def UserService_add_def
      UserService_update_def BaseService_add_def BaseService_update_def hash_password_def
      Repository_findOne_def Repository_save_def Repository_insert_def key_before_def
      Repository_update_def matches_def where_username_def column_ok_def merge_def
      column_set_def Let_def)

subsection \<open>UserController\<close>

text \<open>
  C10. When \<^verbatim>\<open>/user/update\<close> succeeds, the response is the success envelope with
  code 200, message \<^verbatim>\<open>success\<close> and data null, whatever the service returned; it
  succeeds whenever the body carries a key.
\<close>

theorem update_response_null_data:
  "(UserController_update md5 d repo = (Inr res, repo') \<longrightarrow>
      res = \<lparr>data = None, code = Some 200, message = Some ''success''\<rparr>)
   \<and> (id' d = Some i \<longrightarrow>
        fst (UserController_update md5 d repo) =
          Inr \<lparr>data = None, code = Some 200, message = Some ''success''\<rparr>)"
  by (auto simp add: UserController_update_def UserService_update_def BaseService_update_def
      Repository_update_def BaseController_success_default split: prod.splits sum.splits)

theorem update_response_null_data_witness:
  "id' (example_body (Some 2) None (Some ''x'')) = Some 2
   \<and> UserController_update example_md5 (example_body (Some 2) None (Some ''x'')) example_repo =
       (Inr (\<lparr>data = None, code = Some 200, message = Some ''success''\<rparr> :: unit IResult),
        \<lparr>rows = [example_body (Some 1) (Some ''ann'') (Some ''md5:pw1''),
                 example_body (Some 2) (Some ''bob'') (Some ''md5:x''),
                 example_body (Some 3) (Some ''cy'') (Some ''md5:pw3'')],
         nextId = 4\<rparr>)"
  using update_response_null_data [of example_md5 "example_body (Some 2) None (Some ''x'')" example_repo
      "\<lparr>data = None, code = Some 200, message = Some ''success''\<rparr> :: unit IResult"
      "\<lparr>rows = [example_body (Some 1) (Some ''ann'') (Some ''md5:pw1''),
                 example_body (Some 2) (Some ''bob'') (Some ''md5:x''),
                 example_body (Some 3) (Some ''cy'') (Some ''md5:pw3'')],
        nextId = 4\<rparr>" 2]
  by (simp add: example_body_def example_repo_def example_md5_def UserController_update_def
      UserService_update_def BaseService_update_def hash_password_def Repository_update_def
      merge_def column_set_def BaseController_success_default)

text \<open>
  C4. For \<^verbatim>\<open>login(data)\<close> with a username and a password, when \<open>u\<close> is the first
  stored user with that username: if the captcha submitted is the one cached for
  the identifier and the hash of the submitted password is the stored password
  of \<open>u\<close>, the handler returns the success envelope (code 200) around what the
  service issued; if the password is wrong, the service throws, the handler does
  not catch, and the error path answers with the envelope of code 900, data null
  and the message of the failure. A captcha that does not verify gives that
  error envelope too, whatever the password: as the claim words it, with success
  for every matching password, it fails.
\<close>

theorem login_envelopes:
  assumes "username d = Some n" and "password d = Some p"
    and "find (\<lambda>r. username r = Some n) (rows repo) = Some u"
  shows "(captcha_ok cache d \<and> password u = Some (md5 p) \<longrightarrow>
            UserController_login md5 issue cmsg msg cache d repo =
              Inr \<lparr>data = Some (issue u), code = Some 200, message = Some ''success''\<rparr>
            \<and> respond (UserController_login md5 issue cmsg msg cache d repo) =
              \<lparr>data = Some (issue u), code = Some 200, message = Some ''success''\<rparr>)
       \<and> (password u \<noteq> Some (md5 p) \<longrightarrow>
            UserController_login md5 issue cmsg msg cache d repo =
              Inl (CustomHttpError (if captcha_ok cache d then msg else cmsg))
            \<and> respond (UserController_login md5 issue cmsg msg cache d repo) =
              \<lparr>data = None, code = Some 900,
               message = Some (if captcha_ok cache d then msg else cmsg)\<rparr>)
       \<and> (\<not> captcha_ok cache d \<longrightarrow>
            UserController_login md5 issue cmsg msg cache d repo = Inl (CustomHttpError cmsg)
            \<and> respond (UserController_login md5 issue cmsg msg cache d repo) =
              \<lparr>data = None, code = Some 900, message = Some cmsg\<rparr>)"
proof -
  have "matches (where_username d) = (\<lambda>r. username r = Some n)"
    using assms(1) by (auto simp add: matches_where_username column_ok_def)
  then have "Repository_findOne (where_username d) repo = Some u"
    using assms(3) by (simp add: Repository_findOne_def)
  then show ?thesis
    using assms(2)
    by (simp add: UserController_login_def UserService_login_def respond_def
        BaseController_success_default BaseController_error_default)
qed

theorem login_envelopes_witness:
  "username (example_login (Some ''bob'') (Some ''pw2'') (Some ''session1'') (Some ''x7k9''))
     = Some ''bob''
   \<and> password (example_login (Some ''bob'') (Some ''pw2'') (Some ''session1'') (Some ''x7k9''))
     = Some ''pw2''
   \<and> find (\<lambda>r. username r = Some ''bob'') (rows example_repo) =
       Some (example_body (Some 2) (Some ''bob'') (Some ''md5:pw2''))
   \<and> captcha_ok example_cache
       (example_login (Some ''bob'') (Some ''pw2'') (Some ''session1'') (Some ''x7k9''))
   \<and> password (example_body (Some 2) (Some ''bob'') (Some ''md5:pw2''))
       = Some (example_md5 ''pw2'')
   \<and> respond (UserController_login example_md5 id' ''captcha'' ''denied'' example_cache
        (example_login (Some ''bob'') (Some ''pw2'') (Some ''session1'') (Some ''x7k9''))
        example_repo) =
       \<lparr>data = Some (Some 2), code = Some 200, message = Some ''success''\<rparr>
   \<and> password (example_body (Some 2) (Some ''bob'') (Some ''md5:pw2''))
       \<noteq> Some (example_md5 ''bad'')
   \<and> respond (UserController_login example_md5 id' ''captcha'' ''denied'' example_cache
        (example_login (Some ''bob'') (Some ''bad'') (Some ''session1'') (Some ''x7k9''))
        example_repo) =
       \<lparr>data = None, code = Some 900, message = Some ''denied''\<rparr>
   \<and> \<not> captcha_ok example_cache
       (example_login (Some ''bob'') (Some ''pw2'') (Some ''session1'') (Some ''0000''))
   \<and> respond (UserController_login example_md5 id' ''captcha'' ''denied'' example_cache
        (example_login (Some ''bob'') (Some ''pw2'') (Some ''session1'') (Some ''0000''))
        example_repo) =
       \<lparr>data = None, code = Some 900, message = Some ''captcha''\<rparr>"
  using login_envelopes [of
      "example_login (Some ''bob'') (Some ''pw2'') (Some ''session1'') (Some ''x7k9'')"
      "''bob''" "''pw2''" example_repo "example_body (Some 2) (Some ''bob'') (Some ''md5:pw2'')"
      example_cache example_md5 id' "''captcha''" "''denied''"]
    login_envelopes [of
      "example_login (Some ''bob'') (Some ''bad'') (Some ''session1'') (Some ''x7k9'')"
      "''bob''" "''bad''" example_repo "example_body (Some 2) (Some ''bob'') (Some ''md5:pw2'')"
      example_cache example_md5 id' "''captcha''" "''denied''"]
    login_envelopes [of
      "example_login (Some ''bob'') (Some ''pw2'') (Some ''session1'') (Some ''0000'')"
      "''bob''" "''pw2''" example_repo "example_body (Some 2) (Some ''bob'') (Some ''md5:pw2'')"
      example_cache example_md5 id' "''captcha''" "''denied''"]
  by (simp add: example_login_def example_body_def example_repo_def example_md5_def
      example_cache_def captcha_ok_def respond_def BaseController_error_default)

theorem login_envelopes_counterexample:
  "find (\<lambda>r. username r = Some ''bob'') (rows example_repo) =
       Some (example_body (Some 2) (Some ''bob'') (Some ''md5:pw2''))
   \<and> password (example_body (Some 2) (Some ''bob'') (Some ''md5:pw2''))
       = Some (example_md5 ''pw2'')
   \<and> respond (UserController_login example_md5 id' ''captcha'' ''denied'' example_cache
        (example_login (Some ''bob'') (Some ''pw2'') (Some ''session1'') (Some ''0000''))
        example_repo) =
       \<lparr>data = None, code = Some 900, message = Some ''captcha''\<rparr>"
  by (simp add: example_login_def example_body_def example_repo_def example_md5_def
      example_cache_def captcha_ok_def UserController_login_def UserService_login_def
      respond_def BaseController_error_default)

end
